theory Spec2Isabelle
  imports Main "HOL-Library.Sublist"
begin

section \<open>Python primitives that report.py relies on\<close>

text \<open>
  The module \<^verbatim>\<open>src/black/report.py\<close> builds every string with three builtins:
  \<^verbatim>\<open>str\<close> on an \<^verbatim>\<open>int\<close> (inside f-strings and \<^verbatim>\<open>format\<close>),
  \<^verbatim>\<open>sep.join(list)\<close> and \<^verbatim>\<open>template.format(**kwargs)\<close>.
  Python integers are unbounded, so counters are \<^typ>\<open>int\<close>; strings are
  \<^typ>\<open>string\<close>; a \<^verbatim>\<open>Path\<close> is represented by the text \<^verbatim>\<open>str(path)\<close>
  that the f-strings and \<^verbatim>\<open>format\<close> insert.
\<close>

datatype error = KeyError string | ValueError

definition digit_char :: "nat \<Rightarrow> char" where
  "digit_char d = ''0123456789'' ! d"

function str_nat :: "nat \<Rightarrow> string" where
  "str_nat n = (if n < 10 then [digit_char n] else str_nat (n div 10) @ [digit_char (n mod 10)])"
  by pat_completeness auto
termination
  by (relation "measure (\<lambda>n. n)") auto

declare str_nat.simps [simp del]

text \<open>\<^verbatim>\<open>str(i)\<close> for an integer: decimal digits, with a leading minus sign below zero.\<close>

definition str_int :: "int \<Rightarrow> string" where
  "str_int i = (if i < 0 then CHR ''-'' # str_nat (nat (- i)) else str_nat (nat i))"

text \<open>\<^verbatim>\<open>sep.join(xs)\<close>.\<close>

fun join :: "string \<Rightarrow> string list \<Rightarrow> string" where
  "join sep [] = []"
| "join sep [x] = x"
| "join sep (x # y # ys) = x @ sep @ join sep (y # ys)"

text \<open>
  \<^verbatim>\<open>template.format(**kw)\<close>, read left to right. The first argument is the name of the
  replacement field being read (\<open>None\<close> outside a field). A field \<^verbatim>\<open>{name}\<close> is
  replaced by the keyword argument of that name and raises \<^verbatim>\<open>KeyError\<close> when there is
  none; keyword arguments that no field names are ignored; \<^verbatim>\<open>{{\<close> and \<^verbatim>\<open>}}\<close>
  stand for one brace; an unclosed field and a single closing brace raise
  \<^verbatim>\<open>ValueError\<close>. The inserted text is not scanned again. Field names are plain names,
  as in every template of report.py (no conversion, format specification or attribute
  access).
\<close>

definition emit :: "string \<Rightarrow> error + string \<Rightarrow> error + string" where
  "emit s r = (case r of Inl e \<Rightarrow> Inl e | Inr t \<Rightarrow> Inr (s @ t))"

fun format_scan :: "string option \<Rightarrow> string \<Rightarrow> (string \<times> string) list \<Rightarrow> error + string" where
  "format_scan None [] kw = Inr []"
| "format_scan (Some name) [] kw = Inl ValueError"
| "format_scan None (c # cs) kw =
     (if c = CHR ''{'' then
        (case cs of
           [] \<Rightarrow> Inl ValueError
         | d # ds \<Rightarrow> if d = CHR ''{'' then emit [c] (format_scan None ds kw)
                    else format_scan (Some []) cs kw)
      else if c = CHR ''}'' then
        (case cs of
           [] \<Rightarrow> Inl ValueError
         | d # ds \<Rightarrow> if d = CHR ''}'' then emit [c] (format_scan None ds kw)
                    else Inl ValueError)
      else emit [c] (format_scan None cs kw))"
| "format_scan (Some name) (c # cs) kw =
     (if c = CHR ''}'' then
        (case map_of kw name of
           None \<Rightarrow> Inl (KeyError name)
         | Some v \<Rightarrow> emit v (format_scan None cs kw))
      else format_scan (Some (name @ [c])) cs kw)"

definition format :: "string \<Rightarrow> (string \<times> string) list \<Rightarrow> error + string" where
  "format template kw = format_scan None template kw"

section \<open>The data of report.py\<close>

datatype Changed = NO | CACHED | YES

text \<open>
  \<^verbatim>\<open>click.style(text, bold=..., fg=...)\<close> belongs to the click library, not to this
  module, so the renderers take it as a parameter: the text, the \<^verbatim>\<open>bold\<close> keyword
  and the \<^verbatim>\<open>fg\<close> keyword (\<open>None\<close> when the call does not pass it). The unstyled
  text of a rendering is the rendering under \<open>unstyled\<close>, the styler that adds nothing.
\<close>

type_synonym styler = "string \<Rightarrow> bool option \<Rightarrow> string option \<Rightarrow> string"

definition unstyled :: styler where
  "unstyled text bold fg = text"

text \<open>
  \<^verbatim>\<open>out\<close> and \<^verbatim>\<open>err\<close> of \<^verbatim>\<open>black.output\<close> write to the terminal at once. A
  call is recorded as an emission: the message and, for \<^verbatim>\<open>out\<close>, the \<^verbatim>\<open>bold\<close>
  keyword when the call passes one.
\<close>

datatype emission = Out string "bool option" | Err string

record Report =
  check :: bool
  diff :: bool
  quiet :: bool
  verbose :: bool
  change_count :: int
  same_count :: int
  failure_count :: int

record JunitReport =
  check :: bool
  diff :: bool
  quiet :: bool
  verbose :: bool
  change_count :: int
  same_count :: int
  skipped_count :: int
  failure_count :: int
  error_count :: int
  tests :: "string list"

text \<open>The dataclass constructors with the four flags given and every other field at its default.\<close>

definition Report_init :: "bool \<Rightarrow> bool \<Rightarrow> bool \<Rightarrow> bool \<Rightarrow> Report" where
  "Report_init c d q v =
     \<lparr>Report.check = c, Report.diff = d, Report.quiet = q, Report.verbose = v,
      Report.change_count = 0, Report.same_count = 0, Report.failure_count = 0\<rparr>"

definition JunitReport_init :: "bool \<Rightarrow> bool \<Rightarrow> bool \<Rightarrow> bool \<Rightarrow> JunitReport" where
  "JunitReport_init c d q v =
     \<lparr>JunitReport.check = c, JunitReport.diff = d, JunitReport.quiet = q,
      JunitReport.verbose = v, JunitReport.change_count = 0, JunitReport.same_count = 0,
      JunitReport.skipped_count = 0, JunitReport.failure_count = 0,
      JunitReport.error_count = 0, JunitReport.tests = []\<rparr>"

section \<open>class Report\<close>

definition Report_done :: "Report \<Rightarrow> string \<Rightarrow> Changed \<Rightarrow> Report \<times> emission list" where
  "Report_done self src changed =
     (if changed = YES then
        (let reformatted =
               (if Report.check self \<or> Report.diff self then ''would reformat''
                else ''reformatted'');
             written =
               (if Report.verbose self \<or> \<not> Report.quiet self
                then [Out (reformatted @ '' '' @ src) None] else [])
         in (self\<lparr>Report.change_count := Report.change_count self + 1\<rparr>, written))
      else
        (let written =
               (if Report.verbose self then
                  (let msg = (if changed = NO
                              then src @ '' already well formatted, good job.''
                              else src @ '' wasn't modified on disk since last run.'')
                   in [Out msg (Some False)])
                else [])
         in (self\<lparr>Report.same_count := Report.same_count self + 1\<rparr>, written)))"

definition Report_failed :: "Report \<Rightarrow> string \<Rightarrow> string \<Rightarrow> Report \<times> emission list" where
  "Report_failed self src message =
     (self\<lparr>Report.failure_count := Report.failure_count self + 1\<rparr>,
      [Err (''error: cannot format '' @ src @ '': '' @ message)])"

definition Report_path_ignored :: "Report \<Rightarrow> string \<Rightarrow> string \<Rightarrow> Report \<times> emission list" where
  "Report_path_ignored self path message =
     (if Report.verbose self
      then (self, [Out (path @ '' ignored: '' @ message) (Some False)])
      else (self, []))"

definition Report_return_code :: "Report \<Rightarrow> int" where
  "Report_return_code self =
     (if Report.failure_count self \<noteq> 0 then 123
      else if Report.change_count self \<noteq> 0 \<and> Report.check self then 1
      else 0)"

definition Report_str :: "styler \<Rightarrow> Report \<Rightarrow> string" where
  "Report_str style self =
     (let (reformatted, unchanged, failed) =
            (if Report.check self \<or> Report.diff self
             then (''would be reformatted'', ''would be left unchanged'',
                   ''would fail to reformat'')
             else (''reformatted'', ''left unchanged'', ''failed to reformat''));
          report = [];
          report =
            (if Report.change_count self \<noteq> 0 then
               (let s = (if Report.change_count self > 1 then ''s'' else '''')
                in report @
                   [style (str_int (Report.change_count self) @ '' file'' @ s @ '' '')
                      (Some True) (Some ''blue'')
                    @ style reformatted (Some True) None])
             else report);
          report =
            (if Report.same_count self \<noteq> 0 then
               (let s = (if Report.same_count self > 1 then ''s'' else '''')
                in report @
                   [style (str_int (Report.same_count self) @ '' file'' @ s @ '' '')
                      None (Some ''blue'')
                    @ unchanged])
             else report);
          report =
            (if Report.failure_count self \<noteq> 0 then
               (let s = (if Report.failure_count self > 1 then ''s'' else '''')
                in report @
                   [style (str_int (Report.failure_count self) @ '' file'' @ s @ '' '' @ failed)
                      None (Some ''red'')])
             else report)
      in join '', '' report @ ''.'')"

section \<open>class JunitReport\<close>

definition BODY :: string where
  \<open>BODY = ''<?xml version="1.0" encoding="utf-8"?>\<newline><testsuite failures="{failed}" errors="{errors}" name="black"\<newline>skipped="{skipped}" tests="{combined}">\<newline>{tests}</testsuite>''\<close>

definition PASS_MSG :: string where
  \<open>PASS_MSG = CHR 0x09 # ''<testcase classname="black" file="{file}"\<newline>    name="black-{file}"></testcase>\<newline>''\<close>

definition SKIP_MSG :: string where
  \<open>SKIP_MSG = CHR 0x09 # ''<testcase classname="black" file="{file}"\<newline>    name="black-{file}">\<newline>            <skipped message="{msg}" />\<newline>    </testcase>\<newline>''\<close>

definition FAIL_MSG :: string where
  \<open>FAIL_MSG = CHR 0x09 # ''<testcase classname="black" file="{file}"\<newline>    name="black-{file}">\<newline>            <failure message="{msg}" />\<newline>    </testcase>\<newline>''\<close>

definition ERROR_MSG :: string where
  \<open>ERROR_MSG = CHR 0x09 # ''<testcase classname="black" file="{file}"\<newline>    name="black-{file}">\<newline>            <error message="{msg}" />\<newline>    </testcase>\<newline>''\<close>

definition JunitReport_done :: "JunitReport \<Rightarrow> string \<Rightarrow> Changed \<Rightarrow> error + JunitReport" where
  "JunitReport_done self src changed =
     (if changed = YES then
        (let reformatted =
               (if JunitReport.check self \<or> JunitReport.diff self then ''would reformat''
                else ''reformatted'')
         in if JunitReport.verbose self \<or> \<not> JunitReport.quiet self then
              (case format FAIL_MSG [(''file'', src), (''msg'', reformatted)] of
                 Inl e \<Rightarrow> Inl e
               | Inr t \<Rightarrow>
                   Inr (self\<lparr>JunitReport.tests := JunitReport.tests self @ [t],
                              JunitReport.change_count := 1\<rparr>))
            else Inr (self\<lparr>JunitReport.change_count := 1\<rparr>))
      else
        (let msg = (if changed = NO
                    then src @ '' already well formatted, good job.''
                    else src @ '' wasn't modified on disk since last run.'')
         in case format PASS_MSG [(''file'', src), (''msg'', msg)] of
              Inl e \<Rightarrow> Inl e
            | Inr t \<Rightarrow>
                Inr (self\<lparr>JunitReport.tests := JunitReport.tests self @ [t],
                           JunitReport.same_count := 1\<rparr>)))"

definition JunitReport_failed :: "JunitReport \<Rightarrow> string \<Rightarrow> string \<Rightarrow> error + JunitReport" where
  "JunitReport_failed self src message =
     (case format ERROR_MSG
             [(''file'', src), (''msg'', ''error: cannot format '' @ src @ '': '' @ message)] of
        Inl e \<Rightarrow> Inl e
      | Inr t \<Rightarrow>
          Inr (self\<lparr>JunitReport.tests := JunitReport.tests self @ [t],
                     JunitReport.failure_count := 1\<rparr>))"

definition JunitReport_path_ignored ::
    "JunitReport \<Rightarrow> string \<Rightarrow> string \<Rightarrow> error + JunitReport" where
  "JunitReport_path_ignored self path message =
     (if JunitReport.verbose self then
        (case format SKIP_MSG [(''file'', path), (''msg'', path @ '' ignored: '' @ message)] of
           Inl e \<Rightarrow> Inl e
         | Inr t \<Rightarrow>
             Inr (self\<lparr>JunitReport.tests := JunitReport.tests self @ [t],
                        JunitReport.skipped_count := JunitReport.skipped_count self + 1\<rparr>))
      else Inr self)"

definition JunitReport_return_code :: "JunitReport \<Rightarrow> int" where
  "JunitReport_return_code self =
     (if JunitReport.failure_count self \<noteq> 0 then 123
      else if JunitReport.change_count self \<noteq> 0 \<and> JunitReport.check self then 1
      else 0)"

definition JunitReport_str :: "JunitReport \<Rightarrow> error + string" where
  "JunitReport_str self =
     (let combined_tests =
            JunitReport.change_count self + JunitReport.same_count self
            + JunitReport.failure_count self + JunitReport.skipped_count self
      in case format BODY
                [(''failed'', str_int (JunitReport.change_count self)),
                 (''errors'', str_int (JunitReport.failure_count self)),
                 (''skipped'', str_int (JunitReport.skipped_count self)),
                 (''combined'', str_int combined_tests),
                 (''tests'', join [] (JunitReport.tests self))] of
           Inl e \<Rightarrow> Inl e
         | Inr body \<Rightarrow> Inr (join [] [body]))"

definition JunitReport_summary :: "styler \<Rightarrow> JunitReport \<Rightarrow> string" where
  "JunitReport_summary style self =
     (let (reformatted, unchanged, failed) =
            (if JunitReport.check self \<or> JunitReport.diff self
             then (''would be reformatted'', ''would be left unchanged'',
                   ''would fail to reformat'')
             else (''reformatted'', ''left unchanged'', ''failed to reformat''));
          report = [];
          report =
            (if JunitReport.change_count self \<noteq> 0 then
               (let s = (if JunitReport.change_count self > 1 then ''s'' else '''')
                in report @
                   [style (str_int (JunitReport.change_count self) @ '' file'' @ s @ '' ''
                           @ reformatted)
                      (Some True) None])
             else report);
          report =
            (if JunitReport.same_count self \<noteq> 0 then
               (let s = (if JunitReport.same_count self > 1 then ''s'' else '''')
                in report @
                   [str_int (JunitReport.same_count self) @ '' file'' @ s @ '' '' @ unchanged])
             else report);
          report =
            (if JunitReport.failure_count self \<noteq> 0 then
               (let s = (if JunitReport.failure_count self > 1 then ''s'' else '''')
                in report @
                   [style (str_int (JunitReport.failure_count self) @ '' file'' @ s @ '' ''
                           @ failed)
                      None (Some ''red'')])
             else report)
      in join '', '' report @ ''.'')"

section \<open>Sequences of calls\<close>

text \<open>
  The caller feeds one accumulator with one call per file: \<^verbatim>\<open>done\<close>, \<^verbatim>\<open>failed\<close> or
  \<^verbatim>\<open>path_ignored\<close>. A run is the list of these calls, applied from left to right; a
  run of Report collects what the calls write, a run of JunitReport stops at the first
  exception.
\<close>

datatype call =
  Call_done string Changed
| Call_failed string string
| Call_path_ignored string string

fun Report_call :: "Report \<Rightarrow> call \<Rightarrow> Report \<times> emission list" where
  "Report_call self (Call_done src changed) = Report_done self src changed"
| "Report_call self (Call_failed src message) = Report_failed self src message"
| "Report_call self (Call_path_ignored path message) = Report_path_ignored self path message"

fun Report_run :: "Report \<Rightarrow> call list \<Rightarrow> Report \<times> emission list" where
  "Report_run self [] = (self, [])"
| "Report_run self (c # cs) =
     (let (self', written) = Report_call self c;
          (self'', written') = Report_run self' cs
      in (self'', written @ written'))"

fun JunitReport_call :: "JunitReport \<Rightarrow> call \<Rightarrow> error + JunitReport" where
  "JunitReport_call self (Call_done src changed) = JunitReport_done self src changed"
| "JunitReport_call self (Call_failed src message) = JunitReport_failed self src message"
| "JunitReport_call self (Call_path_ignored path message) =
     JunitReport_path_ignored self path message"

fun JunitReport_run :: "JunitReport \<Rightarrow> call list \<Rightarrow> error + JunitReport" where
  "JunitReport_run self [] = Inr self"
| "JunitReport_run self (c # cs) =
     (case JunitReport_call self c of
        Inl e \<Rightarrow> Inl e
      | Inr self' \<Rightarrow> JunitReport_run self' cs)"

fun is_done :: "call \<Rightarrow> bool" where
  "is_done (Call_done src changed) = True"
| "is_done c = False"

fun is_changed :: "call \<Rightarrow> bool" where
  "is_changed (Call_done src changed) = (changed = YES)"
| "is_changed c = False"

fun is_same :: "call \<Rightarrow> bool" where
  "is_same (Call_done src changed) = (changed \<noteq> YES)"
| "is_same c = False"

fun is_failed :: "call \<Rightarrow> bool" where
  "is_failed (Call_failed src message) = True"
| "is_failed c = False"

fun is_path_ignored :: "call \<Rightarrow> bool" where
  "is_path_ignored (Call_path_ignored path message) = True"
| "is_path_ignored c = False"

text \<open>The number of calls of a run that satisfy a predicate.\<close>

definition calls :: "(call \<Rightarrow> bool) \<Rightarrow> call list \<Rightarrow> int" where
  "calls P cs = int (length (filter P cs))"

section \<open>What the specification says, in its own words\<close>

text \<open>
  The exit code as the specification words it: 123 if the failure counter is positive;
  else 1 if the changed counter is positive and check mode is on; else 0.
\<close>

definition exit_code_spec :: "int \<Rightarrow> int \<Rightarrow> bool \<Rightarrow> int" where
  "exit_code_spec failures changes check_mode =
     (if failures > 0 then 123
      else if changes > 0 \<and> check_mode then 1
      else 0)"

text \<open>
  One clause of the summary sentence as the specification words it: omitted when the
  counter is zero, \<^verbatim>\<open>1 file\<close> for one and \<^verbatim>\<open>N files\<close> for more, then the verb phrase.
  The verb phrases are the \<^verbatim>\<open>would\<close> forms when check mode or diff mode is set.
\<close>

definition clause_spec :: "int \<Rightarrow> string \<Rightarrow> string list" where
  "clause_spec n verb =
     (if n = 0 then []
      else if n = 1 then [''1 file '' @ verb]
      else [str_int n @ '' files '' @ verb])"

definition reformatted_verb :: "bool \<Rightarrow> string" where
  "reformatted_verb would = (if would then ''would be reformatted'' else ''reformatted'')"

definition unchanged_verb :: "bool \<Rightarrow> string" where
  "unchanged_verb would = (if would then ''would be left unchanged'' else ''left unchanged'')"

definition failed_verb :: "bool \<Rightarrow> string" where
  "failed_verb would = (if would then ''would fail to reformat'' else ''failed to reformat'')"

definition sentence_spec :: "bool \<Rightarrow> int \<Rightarrow> int \<Rightarrow> int \<Rightarrow> string" where
  "sentence_spec would changed same failure =
     join '', ''
       (clause_spec changed (reformatted_verb would)
        @ clause_spec same (unchanged_verb would)
        @ clause_spec failure (failed_verb would))
     @ ''.''"

section \<open>Auxiliary notions for the statements\<close>

text \<open>
  The count phrase that both renderers put in front of a verb phrase:
  \<^verbatim>\<open>f"{n} file{s}"\<close> with \<^verbatim>\<open>s = "s" if n > 1 else ""\<close>.
\<close>

definition files :: "int \<Rightarrow> string" where
  "files n = str_int n @ '' file'' @ (if n > 1 then ''s'' else [])"

text \<open>
  Reading an attribute back from a rendered document: the text between the first
  \<^verbatim>\<open>name="\<close> and the next double quote.
\<close>

fun after :: "string \<Rightarrow> string \<Rightarrow> string option" where
  "after pat [] = (if pat = [] then Some [] else None)"
| "after pat (c # cs) =
     (if prefix pat (c # cs) then Some (drop (length pat) (c # cs)) else after pat cs)"

definition attribute :: "string \<Rightarrow> string \<Rightarrow> string option" where
  "attribute name xml =
     (case after (name @ [CHR ''='', CHR 0x22]) xml of
        None \<Rightarrow> None
      | Some rest \<Rightarrow> Some (takeWhile (\<lambda>c. c \<noteq> CHR 0x22) rest))"

text \<open>
  How one call, and how a run, changes the flags and counters of a JunitReport: the flags
  stay, \<^verbatim>\<open>change_count\<close>, \<^verbatim>\<open>same_count\<close> and \<^verbatim>\<open>failure_count\<close> are set to one
  or stay, and \<^verbatim>\<open>skipped_count\<close> is the only counter that is incremented.
\<close>

definition JunitReport_after_call :: "JunitReport \<Rightarrow> call \<Rightarrow> JunitReport \<Rightarrow> bool" where
  "JunitReport_after_call self c self' =
     (JunitReport.check self' = JunitReport.check self
      \<and> JunitReport.diff self' = JunitReport.diff self
      \<and> JunitReport.quiet self' = JunitReport.quiet self
      \<and> JunitReport.verbose self' = JunitReport.verbose self
      \<and> JunitReport.change_count self' =
          (if is_changed c then 1 else JunitReport.change_count self)
      \<and> JunitReport.same_count self' =
          (if is_same c then 1 else JunitReport.same_count self)
      \<and> JunitReport.failure_count self' =
          (if is_failed c then 1 else JunitReport.failure_count self)
      \<and> JunitReport.skipped_count self' =
          JunitReport.skipped_count self
          + (if is_path_ignored c \<and> JunitReport.verbose self then 1 else 0))"

definition JunitReport_after_run :: "JunitReport \<Rightarrow> call list \<Rightarrow> JunitReport \<Rightarrow> bool" where
  "JunitReport_after_run self cs self' =
     (JunitReport.check self' = JunitReport.check self
      \<and> JunitReport.diff self' = JunitReport.diff self
      \<and> JunitReport.quiet self' = JunitReport.quiet self
      \<and> JunitReport.verbose self' = JunitReport.verbose self
      \<and> JunitReport.change_count self' =
          (if list_ex is_changed cs then 1 else JunitReport.change_count self)
      \<and> JunitReport.same_count self' =
          (if list_ex is_same cs then 1 else JunitReport.same_count self)
      \<and> JunitReport.failure_count self' =
          (if list_ex is_failed cs then 1 else JunitReport.failure_count self)
      \<and> JunitReport.skipped_count self' =
          JunitReport.skipped_count self
          + (if JunitReport.verbose self then calls is_path_ignored cs else 0))"

text \<open>A run used to try the theorems on: six calls, every kind of call among them.\<close>

definition example_calls :: "call list" where
  "example_calls =
     [Call_done ''a.py'' YES, Call_done ''b.py'' NO, Call_path_ignored ''d.py'' ''excluded'',
      Call_failed ''c.py'' ''syntax error'', Call_done ''e.py'' YES, Call_done ''f.py'' CACHED]"

text \<open>
  A styler that shows what it was asked for, to try the renderers on: the text between
  a tag naming the \<^verbatim>\<open>bold\<close> and \<^verbatim>\<open>fg\<close> keywords and a closing tag.
\<close>

definition marked :: styler where
  "marked text bold fg =
     ''<'' @ (case bold of None \<Rightarrow> [] | Some b \<Rightarrow> if b then ''bold'' else ''plain'')
     @ (case fg of None \<Rightarrow> [] | Some colour \<Rightarrow> '':'' @ colour) @ ''>'' @ text @ ''</>''"

text \<open>
  The fragments that one call appends to \<^verbatim>\<open>tests\<close>: what the call leaves in the list
  when it starts from the empty list.
\<close>

definition appended :: "JunitReport \<Rightarrow> call \<Rightarrow> string list" where
  "appended self c =
     (case JunitReport_call (self\<lparr>JunitReport.tests := []\<rparr>) c of
        Inl e \<Rightarrow> []
      | Inr self' \<Rightarrow> JunitReport.tests self')"


section \<open>The builtins on the templates of JunitReport\<close>

lemma format_PASS_MSG:
  \<open>format PASS_MSG [(''file'', src), (''msg'', msg)] =
     Inr (CHR 0x09 # ''<testcase classname="black" file="'' @ src @ ''"\<newline>    name="black-'' @ src @ ''"></testcase>\<newline>'')\<close>
  by (simp add: format_def PASS_MSG_def emit_def)

lemma format_FAIL_MSG:
  \<open>format FAIL_MSG [(''file'', src), (''msg'', msg)] =
     Inr (CHR 0x09 # ''<testcase classname="black" file="'' @ src @ ''"\<newline>    name="black-'' @ src @ ''">\<newline>            <failure message="'' @ msg @ ''" />\<newline>    </testcase>\<newline>'')\<close>
  by (simp add: format_def FAIL_MSG_def emit_def)

lemma format_ERROR_MSG:
  \<open>format ERROR_MSG [(''file'', src), (''msg'', msg)] =
     Inr (CHR 0x09 # ''<testcase classname="black" file="'' @ src @ ''"\<newline>    name="black-'' @ src @ ''">\<newline>            <error message="'' @ msg @ ''" />\<newline>    </testcase>\<newline>'')\<close>
  by (simp add: format_def ERROR_MSG_def emit_def)

lemma format_SKIP_MSG:
  \<open>format SKIP_MSG [(''file'', src), (''msg'', msg)] =
     Inr (CHR 0x09 # ''<testcase classname="black" file="'' @ src @ ''"\<newline>    name="black-'' @ src @ ''">\<newline>            <skipped message="'' @ msg @ ''" />\<newline>    </testcase>\<newline>'')\<close>
  by (simp add: format_def SKIP_MSG_def emit_def)

lemma format_BODY:
  \<open>format BODY [(''failed'', a), (''errors'', b), (''skipped'', c), (''combined'', d), (''tests'', e)] =
     Inr (''<?xml version="1.0" encoding="utf-8"?>\<newline><testsuite failures="'' @ a @ ''" errors="'' @ b @ ''" name="black"\<newline>skipped="'' @ c @ ''" tests="'' @ d @ ''">\<newline>'' @ e @ ''</testsuite>'')\<close>
  by (simp add: format_def BODY_def emit_def)

lemma join_empty_sep: "join [] xs = concat xs"
  by (induction xs rule: induct_list012) simp_all

section \<open>What each method of JunitReport returns\<close>

lemma JunitReport_done_YES_shown:
  assumes "JunitReport.verbose self \<or> \<not> JunitReport.quiet self"
  shows \<open>JunitReport_done self src YES =
     Inr (self\<lparr>JunitReport.tests := JunitReport.tests self @
            [CHR 0x09 # ''<testcase classname="black" file="'' @ src @ ''"\<newline>    name="black-'' @ src @ ''">\<newline>            <failure message="'' @ (if JunitReport.check self \<or> JunitReport.diff self then ''would reformat'' else ''reformatted'') @ ''" />\<newline>    </testcase>\<newline>''],
          JunitReport.change_count := 1\<rparr>)\<close>
  using assms by (simp add: JunitReport_done_def format_FAIL_MSG)

lemma JunitReport_done_YES_hidden:
  assumes "\<not> JunitReport.verbose self" and "JunitReport.quiet self"
  shows "JunitReport_done self src YES = Inr (self\<lparr>JunitReport.change_count := 1\<rparr>)"
  using assms by (simp add: JunitReport_done_def)

lemma JunitReport_done_same:
  assumes "changed \<noteq> YES"
  shows \<open>JunitReport_done self src changed =
     Inr (self\<lparr>JunitReport.tests := JunitReport.tests self @
            [CHR 0x09 # ''<testcase classname="black" file="'' @ src @ ''"\<newline>    name="black-'' @ src @ ''"></testcase>\<newline>''],
          JunitReport.same_count := 1\<rparr>)\<close>
  using assms by (simp add: JunitReport_done_def format_PASS_MSG)

lemma JunitReport_failed_returns:
  \<open>JunitReport_failed self src message =
     Inr (self\<lparr>JunitReport.tests := JunitReport.tests self @
            [CHR 0x09 # ''<testcase classname="black" file="'' @ src @ ''"\<newline>    name="black-'' @ src @ ''">\<newline>            <error message="error: cannot format '' @ src @ '': '' @ message @ ''" />\<newline>    </testcase>\<newline>''],
          JunitReport.failure_count := 1\<rparr>)\<close>
  by (simp add: JunitReport_failed_def format_ERROR_MSG)

lemma JunitReport_path_ignored_verbose:
  assumes "JunitReport.verbose self"
  shows \<open>JunitReport_path_ignored self path message =
     Inr (self\<lparr>JunitReport.tests := JunitReport.tests self @
            [CHR 0x09 # ''<testcase classname="black" file="'' @ path @ ''"\<newline>    name="black-'' @ path @ ''">\<newline>            <skipped message="'' @ path @ '' ignored: '' @ message @ ''" />\<newline>    </testcase>\<newline>''],
          JunitReport.skipped_count := JunitReport.skipped_count self + 1\<rparr>)\<close>
  using assms by (simp add: JunitReport_path_ignored_def format_SKIP_MSG)

lemma JunitReport_path_ignored_silent:
  assumes "\<not> JunitReport.verbose self"
  shows "JunitReport_path_ignored self path message = Inr self"
  using assms by (simp add: JunitReport_path_ignored_def)

section \<open>Counting along a run\<close>

lemma calls_Nil: "calls P [] = 0"
  by (simp add: calls_def)

lemma calls_Cons: "calls P (c # cs) = (if P c then 1 else 0) + calls P cs"
  by (simp add: calls_def)

lemma calls_nonneg: "0 \<le> calls P cs"
  by (simp add: calls_def)

lemma calls_done_split: "calls is_done cs = calls is_changed cs + calls is_same cs"
proof (induction cs)
  case Nil
  show ?case by (simp add: calls_Nil)
next
  case (Cons c cs)
  then show ?case by (cases c) (simp_all add: calls_Cons)
qed

lemma calls_positive: "list_ex P cs \<Longrightarrow> 0 < calls P cs"
  by (induction cs) (auto simp: calls_Cons calls_Nil intro: add_pos_nonneg add_nonneg_pos calls_nonneg)

text \<open>One call of Report: the flags stay, one counter moves by one or none does.\<close>

lemma Report_call_step:
  "fst (Report_call self c) =
     self\<lparr>Report.change_count := Report.change_count self + (if is_changed c then 1 else 0),
          Report.same_count := Report.same_count self + (if is_same c then 1 else 0),
          Report.failure_count := Report.failure_count self + (if is_failed c then 1 else 0)\<rparr>"
  by (cases c)
     (simp_all add: Report_done_def Report_failed_def Report_path_ignored_def Let_def)

lemma Report_run_counters:
  "fst (Report_run self cs) =
     self\<lparr>Report.change_count := Report.change_count self + calls is_changed cs,
          Report.same_count := Report.same_count self + calls is_same cs,
          Report.failure_count := Report.failure_count self + calls is_failed cs\<rparr>"
proof (induction cs arbitrary: self)
  case Nil
  show ?case by (simp add: calls_Nil)
next
  case (Cons c cs)
  have "fst (Report_run self (c # cs)) = fst (Report_run (fst (Report_call self c)) cs)"
    by (simp add: split_beta)
  then show ?case
    by (simp add: Cons.IH Report_call_step calls_Cons)
qed

text \<open>One call of JunitReport returns; the flags stay; a counter is set to one or stays,
  and only \<^verbatim>\<open>skipped_count\<close> is incremented.\<close>

lemma JunitReport_call_step:
  "\<exists>self'. JunitReport_call self c = Inr self' \<and> JunitReport_after_call self c self'"
proof (cases c)
  case (Call_done src changed)
  show ?thesis
  proof (cases "changed = YES")
    case True
    then show ?thesis
      using JunitReport_done_YES_shown [of self src] JunitReport_done_YES_hidden [of self src]
      by (cases "JunitReport.verbose self \<or> \<not> JunitReport.quiet self")
         (auto simp: Call_done JunitReport_after_call_def)
  next
    case False
    then show ?thesis
      by (simp add: Call_done JunitReport_done_same JunitReport_after_call_def)
  qed
next
  case (Call_failed src message)
  then show ?thesis
    by (simp add: JunitReport_failed_returns JunitReport_after_call_def)
next
  case (Call_path_ignored path message)
  then show ?thesis
    using JunitReport_path_ignored_verbose [of self path message]
      JunitReport_path_ignored_silent [of self path message]
    by (cases "JunitReport.verbose self") (auto simp: JunitReport_after_call_def)
qed

lemma JunitReport_run_returns:
  "\<exists>self'. JunitReport_run self cs = Inr self' \<and> JunitReport_after_run self cs self'"
proof (induction cs arbitrary: self)
  case Nil
  show ?case by (simp add: JunitReport_after_run_def calls_Nil)
next
  case (Cons c cs)
  obtain s1 where s1: "JunitReport_call self c = Inr s1" "JunitReport_after_call self c s1"
    using JunitReport_call_step by blast
  obtain s2 where s2: "JunitReport_run s1 cs = Inr s2" "JunitReport_after_run s1 cs s2"
    using Cons.IH by blast
  have "JunitReport_run self (c # cs) = Inr s2"
    by (simp add: s1 s2)
  moreover have "JunitReport_after_run self (c # cs) s2"
    using s1(2) s2(2)
    by (auto simp: JunitReport_after_run_def JunitReport_after_call_def calls_Cons)
  ultimately show ?case by blast
qed

section \<open>Rendering an accumulator that counted nothing\<close>

text \<open>
  C10. With the three counters at zero no clause is appended, so
  \<^verbatim>\<open>", ".join([]) + "."\<close> is the lone period: \<^verbatim>\<open>Report.__str__\<close> and
  \<^verbatim>\<open>JunitReport.summary\<close> both return \<^verbatim>\<open>"."\<close>, whatever the flags and whatever
  \<^verbatim>\<open>style\<close> does. A freshly constructed accumulator is such a state.
\<close>

theorem render_without_clauses:
  "(Report.change_count r = 0 \<and> Report.same_count r = 0 \<and> Report.failure_count r = 0
      \<longrightarrow> Report_str style r = ''.'')
   \<and> (JunitReport.change_count j = 0 \<and> JunitReport.same_count j = 0
        \<and> JunitReport.failure_count j = 0
      \<longrightarrow> JunitReport_summary style j = ''.'')
   \<and> Report_str style (Report_init c d q v) = ''.''
   \<and> JunitReport_summary style (JunitReport_init c d q v) = ''.''"
  by (simp add: Report_str_def JunitReport_summary_def Report_init_def JunitReport_init_def)

theorem render_without_clauses_witness:
  "Report_str unstyled \<lparr>Report.check = True, diff = False, quiet = True, verbose = False,
       change_count = 0, same_count = 0, failure_count = 0\<rparr> = ''.''
   \<and> JunitReport_summary unstyled \<lparr>JunitReport.check = False, diff = True, quiet = False,
       verbose = True, change_count = 0, same_count = 0, skipped_count = 4, failure_count = 0,
       error_count = 0, tests = [''x'']\<rparr> = ''.''"
  using render_without_clauses [of
      "\<lparr>Report.check = True, diff = False, quiet = True, verbose = False,
       change_count = 0, same_count = 0, failure_count = 0\<rparr>" unstyled
      "\<lparr>JunitReport.check = False, diff = True, quiet = False,
       verbose = True, change_count = 0, same_count = 0, skipped_count = 4, failure_count = 0,
       error_count = 0, tests = [''x'']\<rparr>"]
  by simp

section \<open>The counters of Report\<close>

text \<open>
  C6. Along any run of a Report, \<^verbatim>\<open>change_count + same_count\<close> grows by the number of
  \<^verbatim>\<open>done\<close> calls and \<^verbatim>\<open>failure_count\<close> by the number of \<^verbatim>\<open>failed\<close> calls; from
  a fresh Report they are these numbers. A \<^verbatim>\<open>done\<close> call adds one to
  \<^verbatim>\<open>change_count\<close> when the outcome is \<^verbatim>\<open>Changed.YES\<close> and to \<^verbatim>\<open>same_count\<close>
  otherwise, and touches nothing else; \<^verbatim>\<open>failed\<close> adds one to \<^verbatim>\<open>failure_count\<close>;
  \<^verbatim>\<open>path_ignored\<close> leaves the Report as it is. No counter ever decreases.
\<close>

theorem Report_counters_count_calls:
  "Report.change_count (fst (Report_run r cs)) + Report.same_count (fst (Report_run r cs))
     = Report.change_count r + Report.same_count r + calls is_done cs
   \<and> Report.failure_count (fst (Report_run r cs)) = Report.failure_count r + calls is_failed cs
   \<and> Report.change_count (fst (Report_run (Report_init c d q v) cs))
       + Report.same_count (fst (Report_run (Report_init c d q v) cs)) = calls is_done cs
   \<and> Report.failure_count (fst (Report_run (Report_init c d q v) cs)) = calls is_failed cs
   \<and> Report.change_count r \<le> Report.change_count (fst (Report_run r cs))
   \<and> Report.same_count r \<le> Report.same_count (fst (Report_run r cs))
   \<and> Report.failure_count r \<le> Report.failure_count (fst (Report_run r cs))
   \<and> fst (Report_done r src changed)
       = (if changed = YES then r\<lparr>Report.change_count := Report.change_count r + 1\<rparr>
          else r\<lparr>Report.same_count := Report.same_count r + 1\<rparr>)
   \<and> fst (Report_failed r src message)
       = r\<lparr>Report.failure_count := Report.failure_count r + 1\<rparr>
   \<and> fst (Report_path_ignored r src message) = r"
proof -
  have run: "Report.change_count (fst (Report_run s cs))
               = Report.change_count s + calls is_changed cs
             \<and> Report.same_count (fst (Report_run s cs))
               = Report.same_count s + calls is_same cs
             \<and> Report.failure_count (fst (Report_run s cs))
               = Report.failure_count s + calls is_failed cs" for s
    by (simp add: Report_run_counters)
  have fresh: "Report.change_count (Report_init c d q v) = 0
             \<and> Report.same_count (Report_init c d q v) = 0
             \<and> Report.failure_count (Report_init c d q v) = 0"
    by (simp add: Report_init_def)
  have one: "fst (Report_done r src changed)
       = (if changed = YES then r\<lparr>Report.change_count := Report.change_count r + 1\<rparr>
          else r\<lparr>Report.same_count := Report.same_count r + 1\<rparr>)
   \<and> fst (Report_failed r src message)
       = r\<lparr>Report.failure_count := Report.failure_count r + 1\<rparr>
   \<and> fst (Report_path_ignored r src message) = r"
    by (simp add: Report_done_def Report_failed_def Report_path_ignored_def Let_def)
  show ?thesis
    using run [of r] run [of "Report_init c d q v"] fresh one
      calls_done_split [of cs] calls_nonneg [of is_changed cs]
      calls_nonneg [of is_same cs] calls_nonneg [of is_failed cs]
    by simp
qed

lemma example_calls_counts:
  "calls is_done example_calls = 4" "calls is_failed example_calls = 1"
  "calls is_changed example_calls = 2" "calls is_same example_calls = 2"
  "calls is_path_ignored example_calls = 1"
  by (simp_all add: calls_def example_calls_def)

theorem Report_counters_count_calls_witness:
  "Report.change_count (fst (Report_run (Report_init True False False True) example_calls))
   + Report.same_count (fst (Report_run (Report_init True False False True) example_calls)) = 4
   \<and> Report.failure_count (fst (Report_run (Report_init True False False True) example_calls))
       = 1"
proof -
  note all = Report_counters_count_calls
    [of "Report_init True False False True" example_calls True False False True]
  have "Report.change_count (fst (Report_run (Report_init True False False True) example_calls))
   + Report.same_count (fst (Report_run (Report_init True False False True) example_calls))
     = calls is_done example_calls"
    by (rule conjunct1 [OF conjunct2 [OF conjunct2 [OF all]]])
  moreover have
    "Report.failure_count (fst (Report_run (Report_init True False False True) example_calls))
     = calls is_failed example_calls"
    by (rule conjunct1 [OF conjunct2 [OF conjunct2 [OF conjunct2 [OF all]]]])
  ultimately show ?thesis
    by (simp add: example_calls_counts)
qed

section \<open>The exit code\<close>

lemma Report_return_code_spec:
  assumes "0 \<le> Report.failure_count r" and "0 \<le> Report.change_count r"
  shows "Report_return_code r
           = exit_code_spec (Report.failure_count r) (Report.change_count r) (Report.check r)"
  using assms by (auto simp: Report_return_code_def exit_code_spec_def)

lemma JunitReport_return_code_spec:
  assumes "0 \<le> JunitReport.failure_count j" and "0 \<le> JunitReport.change_count j"
  shows "JunitReport_return_code j
           = exit_code_spec (JunitReport.failure_count j) (JunitReport.change_count j)
               (JunitReport.check j)"
  using assms by (auto simp: JunitReport_return_code_def exit_code_spec_def)

lemma calls_zero_iff: "calls P cs = 0 \<longleftrightarrow> \<not> list_ex P cs"
proof (induction cs)
  case Nil
  show ?case by (simp add: calls_Nil)
next
  case (Cons c cs)
  then show ?case
    using calls_nonneg [of P cs] by (simp add: calls_Cons)
qed

lemma Report_return_code_run:
  "Report_return_code (fst (Report_run (Report_init c d q v) cs))
     = exit_code_spec (calls is_failed cs) (calls is_changed cs) c"
  by (simp add: Report_run_counters Report_init_def Report_return_code_def exit_code_spec_def)
     (use calls_nonneg [of is_failed cs] calls_nonneg [of is_changed cs] in auto)

lemma JunitReport_return_code_run:
  "\<exists>j'. JunitReport_run (JunitReport_init c d q v) cs = Inr j'
     \<and> JunitReport_return_code j'
         = exit_code_spec (calls is_failed cs) (calls is_changed cs) c"
proof -
  obtain j' where j': "JunitReport_run (JunitReport_init c d q v) cs = Inr j'"
      "JunitReport_after_run (JunitReport_init c d q v) cs j'"
    using JunitReport_run_returns by blast
  have "JunitReport_return_code j'
         = exit_code_spec (calls is_failed cs) (calls is_changed cs) c"
    using j'(2) calls_positive [of is_failed cs] calls_positive [of is_changed cs]
      calls_zero_iff [of is_failed cs] calls_zero_iff [of is_changed cs]
    by (auto simp: JunitReport_after_run_def JunitReport_init_def JunitReport_return_code_def
        exit_code_spec_def)
  with j'(1) show ?thesis by blast
qed

lemma Report_failure_dominates:
  assumes "0 \<le> Report.failure_count r" and "list_ex is_failed cs"
  shows "Report_return_code (fst (Report_run r cs)) = 123"
  using assms calls_positive [of is_failed cs]
  by (simp add: Report_run_counters Report_return_code_def)

lemma JunitReport_failure_dominates:
  assumes "list_ex is_failed cs"
  shows "\<exists>j'. JunitReport_run j cs = Inr j' \<and> JunitReport_return_code j' = 123"
proof -
  obtain j' where j': "JunitReport_run j cs = Inr j'" "JunitReport_after_run j cs j'"
    using JunitReport_run_returns by blast
  from j'(2) assms have "JunitReport_return_code j' = 123"
    by (simp add: JunitReport_after_run_def JunitReport_return_code_def)
  with j'(1) show ?thesis by blast
qed

text \<open>
  C1. \<^verbatim>\<open>return_code\<close> of Report and of JunitReport reads nothing but
  \<^verbatim>\<open>failure_count\<close>, \<^verbatim>\<open>change_count\<close> and \<^verbatim>\<open>check\<close>, and is 123 whenever
  \<^verbatim>\<open>failure_count\<close> is positive. On counters that are not
  negative (the counters of the data model; every state a run reaches from a fresh
  accumulator) it is the priority rule of the specification: 123 if
  \<^verbatim>\<open>failure_count > 0\<close>, else 1 if \<^verbatim>\<open>change_count > 0\<close> and \<^verbatim>\<open>check\<close>, else 0.
  After any run from a fresh accumulator it is that rule on the numbers of \<^verbatim>\<open>failed\<close>
  calls and of \<^verbatim>\<open>Changed.YES\<close> outcomes; a run that contains a \<^verbatim>\<open>failed\<close> call ends
  with 123, whatever else it records. A run of JunitReport never raises.
\<close>

theorem return_code_priority:
  "(0 \<le> Report.failure_count r \<and> 0 \<le> Report.change_count r \<longrightarrow>
      Report_return_code r
        = exit_code_spec (Report.failure_count r) (Report.change_count r) (Report.check r))
   \<and> (0 \<le> JunitReport.failure_count j \<and> 0 \<le> JunitReport.change_count j \<longrightarrow>
      JunitReport_return_code j
        = exit_code_spec (JunitReport.failure_count j) (JunitReport.change_count j)
            (JunitReport.check j))
   \<and> Report_return_code (fst (Report_run (Report_init c d q v) cs))
        = exit_code_spec (calls is_failed cs) (calls is_changed cs) c
   \<and> (\<exists>j'. JunitReport_run (JunitReport_init c d q v) cs = Inr j'
          \<and> JunitReport_return_code j'
              = exit_code_spec (calls is_failed cs) (calls is_changed cs) c)
   \<and> (0 \<le> Report.failure_count r \<and> list_ex is_failed cs \<longrightarrow>
        Report_return_code (fst (Report_run r cs)) = 123)
   \<and> (list_ex is_failed cs \<longrightarrow>
        (\<exists>j'. JunitReport_run j cs = Inr j' \<and> JunitReport_return_code j' = 123))
   \<and> (0 < Report.failure_count r \<longrightarrow> Report_return_code r = 123)
   \<and> (0 < JunitReport.failure_count j \<longrightarrow> JunitReport_return_code j = 123)"
proof -
  have "0 < Report.failure_count r \<longrightarrow> Report_return_code r = 123"
    by (simp add: Report_return_code_def)
  moreover have "0 < JunitReport.failure_count j \<longrightarrow> JunitReport_return_code j = 123"
    by (simp add: JunitReport_return_code_def)
  ultimately show ?thesis
    using Report_return_code_spec [of r] JunitReport_return_code_spec [of j]
      Report_return_code_run [of c d q v cs] JunitReport_return_code_run [of c d q v cs]
      Report_failure_dominates [of r cs] JunitReport_failure_dominates [of cs j]
    by blast
qed

lemma example_calls_failed: "list_ex is_failed example_calls"
  by (simp add: example_calls_def)

theorem return_code_priority_witness:
  "Report_return_code \<lparr>Report.check = True, diff = False, quiet = False, verbose = False,
       change_count = 3, same_count = 5, failure_count = 0\<rparr> = 1
   \<and> JunitReport_return_code \<lparr>JunitReport.check = True, diff = False, quiet = False,
       verbose = False, change_count = 1, same_count = 1, skipped_count = 0,
       failure_count = 1, error_count = 0, tests = []\<rparr> = 123
   \<and> Report_return_code (fst (Report_run (Report_init True False False False) example_calls))
       = 123
   \<and> (\<exists>j'. JunitReport_run (JunitReport_init True False False False) example_calls = Inr j'
          \<and> JunitReport_return_code j' = 123)
   \<and> Report_return_code (fst (Report_run
         \<lparr>Report.check = True, diff = False, quiet = False, verbose = False,
          change_count = 3, same_count = 5, failure_count = 0\<rparr> example_calls)) = 123
   \<and> (\<exists>j'. JunitReport_run
         \<lparr>JunitReport.check = True, diff = False, quiet = False,
          verbose = False, change_count = 1, same_count = 1, skipped_count = 0,
          failure_count = 1, error_count = 0, tests = []\<rparr> example_calls = Inr j'
        \<and> JunitReport_return_code j' = 123)
   \<and> Report_return_code \<lparr>Report.check = True, diff = False, quiet = False, verbose = False,
       change_count = 3, same_count = 5, failure_count = 2\<rparr> = 123"
  using example_calls_failed
    return_code_priority [of
      "\<lparr>Report.check = True, diff = False, quiet = False, verbose = False,
        change_count = 3, same_count = 5, failure_count = 0\<rparr>"
      "\<lparr>JunitReport.check = True, diff = False, quiet = False,
        verbose = False, change_count = 1, same_count = 1, skipped_count = 0,
        failure_count = 1, error_count = 0, tests = []\<rparr>"
      True False False False example_calls]
    return_code_priority [of
      "\<lparr>Report.check = True, diff = False, quiet = False, verbose = False,
        change_count = 3, same_count = 5, failure_count = 2\<rparr>"
      "\<lparr>JunitReport.check = True, diff = False, quiet = False,
        verbose = False, change_count = 1, same_count = 1, skipped_count = 0,
        failure_count = 1, error_count = 0, tests = []\<rparr>"
      True False False False "[]"]
  by (simp add: exit_code_spec_def example_calls_counts calls_Nil)

section \<open>The counters of JunitReport\<close>

text \<open>
  C5. A run of JunitReport from a fresh accumulator never raises, and afterwards
  \<^verbatim>\<open>change_count\<close>, \<^verbatim>\<open>same_count\<close> and \<^verbatim>\<open>failure_count\<close> are 0 or 1: each is 1
  exactly when the run holds a call that sets it (\<^verbatim>\<open>done\<close> with \<^verbatim>\<open>Changed.YES\<close>,
  \<^verbatim>\<open>done\<close> with another outcome, \<^verbatim>\<open>failed\<close>), however many such calls there are.
  \<^verbatim>\<open>skipped_count\<close> is the number of \<^verbatim>\<open>path_ignored\<close> calls when \<^verbatim>\<open>verbose\<close> is
  set and 0 when it is not; \<^verbatim>\<open>path_ignored\<close> without \<^verbatim>\<open>verbose\<close> returns the
  accumulator unchanged. Started on counters that are 0 or 1, a run keeps them so.
\<close>

theorem JunitReport_counters_clamped:
  "(\<exists>j'. JunitReport_run (JunitReport_init c d q v) cs = Inr j'
      \<and> JunitReport.change_count j' \<in> {0, 1}
      \<and> JunitReport.same_count j' \<in> {0, 1}
      \<and> JunitReport.failure_count j' \<in> {0, 1}
      \<and> JunitReport.change_count j' = (if list_ex is_changed cs then 1 else 0)
      \<and> JunitReport.same_count j' = (if list_ex is_same cs then 1 else 0)
      \<and> JunitReport.failure_count j' = (if list_ex is_failed cs then 1 else 0)
      \<and> JunitReport.skipped_count j' = (if v then calls is_path_ignored cs else 0))
   \<and> (JunitReport.change_count j \<in> {0, 1} \<and> JunitReport.same_count j \<in> {0, 1}
        \<and> JunitReport.failure_count j \<in> {0, 1} \<longrightarrow>
      (\<exists>j'. JunitReport_run j cs = Inr j'
         \<and> JunitReport.change_count j' \<in> {0, 1}
         \<and> JunitReport.same_count j' \<in> {0, 1}
         \<and> JunitReport.failure_count j' \<in> {0, 1}
         \<and> JunitReport.skipped_count j'
             = JunitReport.skipped_count j
               + (if JunitReport.verbose j then calls is_path_ignored cs else 0)))
   \<and> (\<not> JunitReport.verbose j \<longrightarrow> JunitReport_path_ignored j path message = Inr j)"
proof -
  obtain j1 where j1: "JunitReport_run (JunitReport_init c d q v) cs = Inr j1"
      "JunitReport_after_run (JunitReport_init c d q v) cs j1"
    using JunitReport_run_returns by blast
  obtain j2 where j2: "JunitReport_run j cs = Inr j2" "JunitReport_after_run j cs j2"
    using JunitReport_run_returns by blast
  have fresh: "JunitReport.change_count j1 = (if list_ex is_changed cs then 1 else 0)
      \<and> JunitReport.same_count j1 = (if list_ex is_same cs then 1 else 0)
      \<and> JunitReport.failure_count j1 = (if list_ex is_failed cs then 1 else 0)
      \<and> JunitReport.skipped_count j1 = (if v then calls is_path_ignored cs else 0)"
    using j1(2) by (simp add: JunitReport_after_run_def JunitReport_init_def)
  then have clamped: "JunitReport.change_count j1 \<in> {0, 1}
      \<and> JunitReport.same_count j1 \<in> {0, 1} \<and> JunitReport.failure_count j1 \<in> {0, 1}"
    by simp
  have kept: "JunitReport.change_count j2 \<in> {0, 1}
         \<and> JunitReport.same_count j2 \<in> {0, 1}
         \<and> JunitReport.failure_count j2 \<in> {0, 1}
         \<and> JunitReport.skipped_count j2
             = JunitReport.skipped_count j
               + (if JunitReport.verbose j then calls is_path_ignored cs else 0)"
    if "JunitReport.change_count j \<in> {0, 1} \<and> JunitReport.same_count j \<in> {0, 1}
        \<and> JunitReport.failure_count j \<in> {0, 1}"
    using that j2(2) by (simp add: JunitReport_after_run_def)
  show ?thesis
    using j1(1) j2(1) fresh clamped kept JunitReport_path_ignored_silent [of j path message]
    by simp
qed

theorem JunitReport_counters_clamped_witness:
  "(\<exists>j'. JunitReport_run (JunitReport_init False False False True) example_calls = Inr j'
      \<and> JunitReport.change_count j' = 1 \<and> JunitReport.same_count j' = 1
      \<and> JunitReport.failure_count j' = 1 \<and> JunitReport.skipped_count j' = 1)
   \<and> (\<exists>j'. JunitReport_run (JunitReport_init False False True False) example_calls = Inr j'
      \<and> JunitReport.change_count j' \<in> {0, 1} \<and> JunitReport.same_count j' \<in> {0, 1}
      \<and> JunitReport.failure_count j' \<in> {0, 1} \<and> JunitReport.skipped_count j' = 0)
   \<and> JunitReport_path_ignored (JunitReport_init False False True False) ''d.py'' ''excluded''
       = Inr (JunitReport_init False False True False)"
proof -
  have "list_ex is_changed example_calls" "list_ex is_same example_calls"
    "list_ex is_failed example_calls"
    by (simp_all add: example_calls_def)
  moreover have "JunitReport.change_count (JunitReport_init False False True False) = 0"
    "JunitReport.same_count (JunitReport_init False False True False) = 0"
    "JunitReport.failure_count (JunitReport_init False False True False) = 0"
    "JunitReport.skipped_count (JunitReport_init False False True False) = 0"
    "\<not> JunitReport.verbose (JunitReport_init False False True False)"
    by (simp_all add: JunitReport_init_def)
  ultimately show ?thesis
    using JunitReport_counters_clamped [of False False False True example_calls
        "JunitReport_init False False True False" "''d.py''" "''excluded''"]
    by (auto simp: example_calls_counts)
qed

section \<open>The summary sentence\<close>

lemma str_int_1: "str_int 1 = ''1''"
  by (simp add: str_int_def str_nat.simps digit_char_def)

lemma files_1: "files 1 = ''1 file''"
  by (simp add: files_def str_int_1)

lemma files_many: "1 < n \<Longrightarrow> files n = str_int n @ '' files''"
  by (simp add: files_def)

text \<open>Both renderers, with the clause list written as one append.\<close>

lemma Report_str_clauses:
  "Report_str style r =
     join '', ''
       ((if Report.change_count r = 0 then []
         else [style (files (Report.change_count r) @ '' '') (Some True) (Some ''blue'')
               @ style (reformatted_verb (Report.check r \<or> Report.diff r)) (Some True) None])
        @ (if Report.same_count r = 0 then []
           else [style (files (Report.same_count r) @ '' '') None (Some ''blue'')
                 @ unchanged_verb (Report.check r \<or> Report.diff r)])
        @ (if Report.failure_count r = 0 then []
           else [style (files (Report.failure_count r) @ '' ''
                        @ failed_verb (Report.check r \<or> Report.diff r))
                   None (Some ''red'')]))
     @ ''.''"
  by (simp add: Report_str_def files_def reformatted_verb_def unchanged_verb_def
      failed_verb_def)

lemma JunitReport_summary_clauses:
  "JunitReport_summary style j =
     join '', ''
       ((if JunitReport.change_count j = 0 then []
         else [style (files (JunitReport.change_count j) @ '' ''
                      @ reformatted_verb (JunitReport.check j \<or> JunitReport.diff j))
                 (Some True) None])
        @ (if JunitReport.same_count j = 0 then []
           else [files (JunitReport.same_count j) @ '' ''
                 @ unchanged_verb (JunitReport.check j \<or> JunitReport.diff j)])
        @ (if JunitReport.failure_count j = 0 then []
           else [style (files (JunitReport.failure_count j) @ '' ''
                        @ failed_verb (JunitReport.check j \<or> JunitReport.diff j))
                   None (Some ''red'')]))
     @ ''.''"
  by (simp add: JunitReport_summary_def files_def reformatted_verb_def unchanged_verb_def
      failed_verb_def)

lemma clause_spec_files:
  "0 \<le> n \<Longrightarrow> clause_spec n verb = (if n = 0 then [] else [files n @ '' '' @ verb])"
  by (cases "n = 1") (auto simp: clause_spec_def files_1 files_many)

lemma Report_str_unstyled:
  assumes "0 \<le> Report.change_count r" and "0 \<le> Report.same_count r"
    and "0 \<le> Report.failure_count r"
  shows "Report_str unstyled r =
           sentence_spec (Report.check r \<or> Report.diff r) (Report.change_count r)
             (Report.same_count r) (Report.failure_count r)"
  using assms
  by (simp add: Report_str_clauses sentence_spec_def clause_spec_files unstyled_def)

lemma Report_run_flags:
  "Report.check (fst (Report_run r cs)) = Report.check r"
  "Report.diff (fst (Report_run r cs)) = Report.diff r"
  by (simp_all add: Report_run_counters)

text \<open>
  C7. Without the styling, \<^verbatim>\<open>Report.__str__\<close> on counters that are not negative is
  the sentence of the specification: the clauses for changed, unchanged and failed
  files in this order, a clause left out when its counter is zero, \<^verbatim>\<open>1 file\<close> for
  one and \<^verbatim>\<open>N files\<close> for more, the \<^verbatim>\<open>would\<close> verb phrases when \<^verbatim>\<open>check\<close> or
  \<^verbatim>\<open>diff\<close> is set, joined by comma and space, and a closing period. After a run from
  a fresh Report the counters are the numbers of calls of each kind. Whatever the
  styling does, the rendering ends with the period.
\<close>

theorem Report_str_sentence:
  "(0 \<le> Report.change_count r \<and> 0 \<le> Report.same_count r \<and> 0 \<le> Report.failure_count r \<longrightarrow>
      Report_str unstyled r =
        sentence_spec (Report.check r \<or> Report.diff r) (Report.change_count r)
          (Report.same_count r) (Report.failure_count r))
   \<and> Report_str unstyled (fst (Report_run (Report_init c d q v) cs)) =
        sentence_spec (c \<or> d) (calls is_changed cs) (calls is_same cs) (calls is_failed cs)
   \<and> (\<exists>clauses. Report_str style r = join '', '' clauses @ ''.'' \<and> length clauses \<le> 3)"
proof -
  have "Report_str unstyled (fst (Report_run (Report_init c d q v) cs)) =
        sentence_spec (c \<or> d) (calls is_changed cs) (calls is_same cs) (calls is_failed cs)"
    using Report_str_unstyled [of "fst (Report_run (Report_init c d q v) cs)"]
      calls_nonneg [of is_changed cs] calls_nonneg [of is_same cs]
      calls_nonneg [of is_failed cs]
    by (simp add: Report_run_counters Report_init_def)
  moreover have "\<exists>clauses. Report_str style r = join '', '' clauses @ ''.'' \<and> length clauses \<le> 3"
    by (subst Report_str_clauses) (rule exI, rule conjI, rule refl, simp)
  ultimately show ?thesis
    using Report_str_unstyled [of r] by blast
qed

theorem Report_str_sentence_witness:
  "Report_str unstyled \<lparr>Report.check = False, diff = False, quiet = False, verbose = False,
       change_count = 1, same_count = 2, failure_count = 12\<rparr>
     = ''1 file reformatted, 2 files left unchanged, 12 files failed to reformat.''
   \<and> Report_str unstyled \<lparr>Report.check = False, diff = True, quiet = False, verbose = False,
       change_count = 2, same_count = 0, failure_count = 1\<rparr>
     = ''2 files would be reformatted, 1 file would fail to reformat.''"
  using Report_str_sentence [of
      "\<lparr>Report.check = False, diff = False, quiet = False, verbose = False,
        change_count = 1, same_count = 2, failure_count = 12\<rparr>"]
    Report_str_sentence [of
      "\<lparr>Report.check = False, diff = True, quiet = False, verbose = False,
        change_count = 2, same_count = 0, failure_count = 1\<rparr>"]
  by (simp add: sentence_spec_def clause_spec_def reformatted_verb_def unchanged_verb_def
      failed_verb_def str_int_def str_nat.simps digit_char_def)

text \<open>
  C8. For equal \<^verbatim>\<open>check\<close>, \<^verbatim>\<open>diff\<close> and counters, \<^verbatim>\<open>JunitReport.summary\<close> and
  \<^verbatim>\<open>Report.__str__\<close> are the same text once the styling is left out. The two differ in
  the calls of \<^verbatim>\<open>style\<close> alone: \<^verbatim>\<open>summary\<close> styles the whole changed clause bold
  with no colour, leaves the unchanged clause unstyled and styles the failed clause
  red; \<^verbatim>\<open>Report.__str__\<close> styles the count phrase of the changed clause bold and blue
  and its verb phrase bold, the count phrase of the unchanged clause blue, and the
  failed clause red.
\<close>

theorem summary_is_Report_str_restyled:
  "(Report.check r = JunitReport.check j \<and> Report.diff r = JunitReport.diff j
      \<and> Report.change_count r = JunitReport.change_count j
      \<and> Report.same_count r = JunitReport.same_count j
      \<and> Report.failure_count r = JunitReport.failure_count j \<longrightarrow>
    JunitReport_summary unstyled j = Report_str unstyled r)
   \<and> JunitReport_summary style j =
     join '', ''
       ((if JunitReport.change_count j = 0 then []
         else [style (files (JunitReport.change_count j) @ '' ''
                      @ reformatted_verb (JunitReport.check j \<or> JunitReport.diff j))
                 (Some True) None])
        @ (if JunitReport.same_count j = 0 then []
           else [files (JunitReport.same_count j) @ '' ''
                 @ unchanged_verb (JunitReport.check j \<or> JunitReport.diff j)])
        @ (if JunitReport.failure_count j = 0 then []
           else [style (files (JunitReport.failure_count j) @ '' ''
                        @ failed_verb (JunitReport.check j \<or> JunitReport.diff j))
                   None (Some ''red'')]))
     @ ''.''
   \<and> Report_str style r =
     join '', ''
       ((if Report.change_count r = 0 then []
         else [style (files (Report.change_count r) @ '' '') (Some True) (Some ''blue'')
               @ style (reformatted_verb (Report.check r \<or> Report.diff r)) (Some True) None])
        @ (if Report.same_count r = 0 then []
           else [style (files (Report.same_count r) @ '' '') None (Some ''blue'')
                 @ unchanged_verb (Report.check r \<or> Report.diff r)])
        @ (if Report.failure_count r = 0 then []
           else [style (files (Report.failure_count r) @ '' ''
                        @ failed_verb (Report.check r \<or> Report.diff r))
                   None (Some ''red'')]))
     @ ''.''"
proof -
  have "JunitReport_summary unstyled j = Report_str unstyled r"
    if "Report.check r = JunitReport.check j \<and> Report.diff r = JunitReport.diff j
      \<and> Report.change_count r = JunitReport.change_count j
      \<and> Report.same_count r = JunitReport.same_count j
      \<and> Report.failure_count r = JunitReport.failure_count j"
    using that by (simp add: Report_str_clauses JunitReport_summary_clauses unstyled_def)
  then show ?thesis
    using Report_str_clauses [of style r] JunitReport_summary_clauses [of style j]
    by blast
qed

theorem summary_is_Report_str_restyled_witness:
  "JunitReport_summary unstyled \<lparr>JunitReport.check = True, diff = False, quiet = False,
       verbose = False, change_count = 1, same_count = 1, skipped_count = 0,
       failure_count = 1, error_count = 0, tests = []\<rparr>
     = Report_str unstyled \<lparr>Report.check = True, diff = False, quiet = False,
       verbose = False, change_count = 1, same_count = 1, failure_count = 1\<rparr>
   \<and> JunitReport_summary marked \<lparr>JunitReport.check = True, diff = False, quiet = False,
       verbose = False, change_count = 1, same_count = 1, skipped_count = 0,
       failure_count = 1, error_count = 0, tests = []\<rparr>
     = ''<bold>1 file would be reformatted</>, 1 file would be left unchanged, <:red>1 file would fail to reformat</>.''
   \<and> Report_str marked \<lparr>Report.check = True, diff = False, quiet = False,
       verbose = False, change_count = 1, same_count = 1, failure_count = 1\<rparr>
     = ''<bold:blue>1 file </><bold>would be reformatted</>, <:blue>1 file </>would be left unchanged, <:red>1 file would fail to reformat</>.''"
  using summary_is_Report_str_restyled [of
      "\<lparr>Report.check = True, diff = False, quiet = False,
       verbose = False, change_count = 1, same_count = 1, failure_count = 1\<rparr>"
      "\<lparr>JunitReport.check = True, diff = False, quiet = False,
       verbose = False, change_count = 1, same_count = 1, skipped_count = 0,
       failure_count = 1, error_count = 0, tests = []\<rparr>" marked]
  by (simp add: files_1 reformatted_verb_def unchanged_verb_def failed_verb_def marked_def)

section \<open>The rendered document\<close>

lemma str_nat_chars: "set (str_nat n) \<subseteq> set ''0123456789''"
proof (induction n rule: str_nat.induct)
  case (1 n)
  have digit: "digit_char d \<in> set ''0123456789''" if "d < 10" for d
    unfolding digit_char_def using that by (intro nth_mem) simp
  show ?case
  proof (cases "n < 10")
    case True
    have "str_nat n = [digit_char n]"
      using True by (subst str_nat.simps) simp
    then show ?thesis
      using digit [OF True] by simp
  next
    case False
    have "str_nat n = str_nat (n div 10) @ [digit_char (n mod 10)]"
      using False by (subst str_nat.simps) simp
    moreover have "digit_char (n mod 10) \<in> set ''0123456789''"
      by (rule digit) simp
    ultimately show ?thesis
      using "1.IH" [OF False] by simp
  qed
qed

lemma str_int_chars: "set (str_int i) \<subseteq> set ''-0123456789''"
proof (cases "i < 0")
  case True
  have "set ''0123456789'' \<subseteq> set ''-0123456789''"
    by (rule set_subset_Cons)
  with str_nat_chars [of "nat (- i)"] have "set (str_nat (nat (- i))) \<subseteq> set ''-0123456789''"
    by (rule subset_trans)
  with True show ?thesis
    by (simp add: str_int_def)
next
  case False
  have "set ''0123456789'' \<subseteq> set ''-0123456789''"
    by (rule set_subset_Cons)
  with str_nat_chars [of "nat i"] have "set (str_nat (nat i)) \<subseteq> set ''-0123456789''"
    by (rule subset_trans)
  with False show ?thesis
    by (simp add: str_int_def)
qed

lemma str_int_no_char:
  assumes "c \<notin> set ''-0123456789''"
  shows "c \<notin> set (str_int i)"
  using assms str_int_chars [of i] by blast

lemma after_skip:
  assumes "p \<notin> set xs"
  shows "after (p # ps) (xs @ rest) = after (p # ps) rest"
  using assms by (induction xs) simp_all

lemma after_skip_str_int:
  assumes "p \<notin> set ''-0123456789''"
  shows "after (p # ps) (str_int i @ rest) = after (p # ps) rest"
  using assms by (intro after_skip str_int_no_char)

lemma takeWhile_str_int:
  "takeWhile (\<lambda>c. c \<noteq> CHR 0x22) (str_int i @ CHR 0x22 # rest) = str_int i"
proof -
  have "\<forall>c \<in> set (str_int i). c \<noteq> CHR 0x22"
    using str_int_no_char [of "CHR 0x22" i] by auto
  then show ?thesis
    by (simp add: takeWhile_tail)
qed

lemma JunitReport_str_returns:
  \<open>JunitReport_str j =
     Inr (''<?xml version="1.0" encoding="utf-8"?>\<newline><testsuite failures="''
          @ str_int (JunitReport.change_count j)
          @ ''" errors="'' @ str_int (JunitReport.failure_count j)
          @ ''" name="black"\<newline>skipped="'' @ str_int (JunitReport.skipped_count j)
          @ ''" tests="''
          @ str_int (JunitReport.change_count j + JunitReport.same_count j
                     + JunitReport.failure_count j + JunitReport.skipped_count j)
          @ ''">\<newline>'' @ concat (JunitReport.tests j) @ ''</testsuite>'')\<close>
  by (simp add: JunitReport_str_def format_BODY join_empty_sep)


lemma header_attributes:
  fixes a b c d :: int and body :: string
  defines \<open>doc \<equiv> ''<?xml version="1.0" encoding="utf-8"?>\<newline><testsuite failures="''
          @ str_int a @ ''" errors="'' @ str_int b
          @ ''" name="black"\<newline>skipped="'' @ str_int c
          @ ''" tests="'' @ str_int d @ ''">\<newline>'' @ body @ ''</testsuite>''\<close>
  shows "attribute ''failures'' doc = Some (str_int a)"
    and "attribute ''errors'' doc = Some (str_int b)"
    and "attribute ''skipped'' doc = Some (str_int c)"
    and "attribute ''tests'' doc = Some (str_int d)"
  unfolding doc_def
  by (simp_all add: attribute_def after_skip_str_int takeWhile_str_int)

lemma JunitReport_call_tests:
  "\<exists>self'. JunitReport_call self c = Inr self'
     \<and> JunitReport.tests self' = JunitReport.tests self @ appended self c"
proof (cases c)
  case (Call_done src changed)
  show ?thesis
  proof (cases "changed = YES")
    case True
    show ?thesis
    proof (cases "JunitReport.verbose self \<or> \<not> JunitReport.quiet self")
      case True
      then show ?thesis
        using \<open>changed = YES\<close>
        by (simp add: Call_done appended_def JunitReport_done_YES_shown)
    next
      case False
      then show ?thesis
        using \<open>changed = YES\<close>
        by (simp add: Call_done appended_def JunitReport_done_YES_hidden)
    qed
  next
    case False
    then show ?thesis
      by (simp add: Call_done appended_def JunitReport_done_same)
  qed
next
  case (Call_failed src message)
  then show ?thesis
    by (simp add: appended_def JunitReport_failed_returns)
next
  case (Call_path_ignored path message)
  then show ?thesis
    by (cases "JunitReport.verbose self")
       (simp_all add: appended_def JunitReport_path_ignored_verbose
          JunitReport_path_ignored_silent)
qed

lemma appended_flags:
  assumes "JunitReport.check s = JunitReport.check t" and "JunitReport.diff s = JunitReport.diff t"
    and "JunitReport.quiet s = JunitReport.quiet t"
    and "JunitReport.verbose s = JunitReport.verbose t"
  shows "appended s c = appended t c"
proof (cases c)
  case (Call_done src changed)
  show ?thesis
  proof (cases "changed = YES")
    case True
    show ?thesis
    proof (cases "JunitReport.verbose s \<or> \<not> JunitReport.quiet s")
      case True
      then show ?thesis
        using \<open>changed = YES\<close> assms
        by (simp add: Call_done appended_def JunitReport_done_YES_shown)
    next
      case False
      then show ?thesis
        using \<open>changed = YES\<close> assms
        by (simp add: Call_done appended_def JunitReport_done_YES_hidden)
    qed
  next
    case False
    then show ?thesis
      by (simp add: Call_done appended_def JunitReport_done_same)
  qed
next
  case (Call_failed src message)
  then show ?thesis
    by (simp add: appended_def JunitReport_failed_returns)
next
  case (Call_path_ignored path message)
  then show ?thesis
    using assms
    by (cases "JunitReport.verbose s")
       (simp_all add: appended_def JunitReport_path_ignored_verbose
          JunitReport_path_ignored_silent)
qed

lemma JunitReport_run_tests:
  "\<exists>self'. JunitReport_run self cs = Inr self'
     \<and> JunitReport.tests self' = JunitReport.tests self @ concat (map (appended self) cs)"
proof (induction cs arbitrary: self)
  case Nil
  show ?case by simp
next
  case (Cons c cs)
  obtain s1 where s1: "JunitReport_call self c = Inr s1"
      "JunitReport.tests s1 = JunitReport.tests self @ appended self c"
    using JunitReport_call_tests by blast
  obtain s1' where "JunitReport_call self c = Inr s1'" "JunitReport_after_call self c s1'"
    using JunitReport_call_step by blast
  with s1(1) have flags: "JunitReport_after_call self c s1"
    by simp
  obtain s2 where s2: "JunitReport_run s1 cs = Inr s2"
      "JunitReport.tests s2 = JunitReport.tests s1 @ concat (map (appended s1) cs)"
    using Cons.IH by blast
  have "appended s1 = appended self"
    using flags by (intro ext appended_flags) (simp_all add: JunitReport_after_call_def)
  then have "JunitReport.tests s2
               = JunitReport.tests self @ concat (map (appended self) (c # cs))"
    using s1(2) s2(2) by simp
  moreover have "JunitReport_run self (c # cs) = Inr s2"
    by (simp add: s1(1) s2(1))
  ultimately show ?case by blast
qed

text \<open>
  C4. \<^verbatim>\<open>JunitReport.__str__\<close> never raises. Its result is the \<^verbatim>\<open>BODY\<close> template:
  the XML declaration and one \<^verbatim>\<open>testsuite\<close> element whose \<^verbatim>\<open>failures\<close> attribute
  is \<^verbatim>\<open>change_count\<close>, whose \<^verbatim>\<open>errors\<close> attribute is \<^verbatim>\<open>failure_count\<close>, whose
  \<^verbatim>\<open>skipped\<close> attribute is \<^verbatim>\<open>skipped_count\<close> and whose \<^verbatim>\<open>tests\<close> attribute is
  \<^verbatim>\<open>change_count + same_count + failure_count + skipped_count\<close>, around the
  concatenation of the list \<^verbatim>\<open>tests\<close>. Read back from the document, the four
  attributes are these numbers. After a run from a fresh accumulator, \<^verbatim>\<open>tests\<close> holds
  what each call appended, in the order of the calls.
\<close>

theorem JunitReport_str_document:
  \<open>JunitReport_str j =
     Inr (''<?xml version="1.0" encoding="utf-8"?>\<newline><testsuite failures="''
          @ str_int (JunitReport.change_count j)
          @ ''" errors="'' @ str_int (JunitReport.failure_count j)
          @ ''" name="black"\<newline>skipped="'' @ str_int (JunitReport.skipped_count j)
          @ ''" tests="''
          @ str_int (JunitReport.change_count j + JunitReport.same_count j
                     + JunitReport.failure_count j + JunitReport.skipped_count j)
          @ ''">\<newline>'' @ concat (JunitReport.tests j) @ ''</testsuite>'')
   \<and> (\<exists>doc. JunitReport_str j = Inr doc
         \<and> attribute ''failures'' doc = Some (str_int (JunitReport.change_count j))
         \<and> attribute ''errors'' doc = Some (str_int (JunitReport.failure_count j))
         \<and> attribute ''skipped'' doc = Some (str_int (JunitReport.skipped_count j))
         \<and> attribute ''tests'' doc
             = Some (str_int (JunitReport.change_count j + JunitReport.same_count j
                              + JunitReport.failure_count j + JunitReport.skipped_count j)))
   \<and> (\<exists>j'. JunitReport_run (JunitReport_init c d q v) cs = Inr j'
         \<and> JunitReport.tests j' = concat (map (appended (JunitReport_init c d q v)) cs))\<close>
proof -
  have "\<exists>j'. JunitReport_run (JunitReport_init c d q v) cs = Inr j'
         \<and> JunitReport.tests j' = concat (map (appended (JunitReport_init c d q v)) cs)"
    using JunitReport_run_tests [of "JunitReport_init c d q v" cs]
    by (simp add: JunitReport_init_def)
  then show ?thesis
    using JunitReport_str_returns [of j]
      header_attributes [of "JunitReport.change_count j" "JunitReport.failure_count j"
        "JunitReport.skipped_count j"
        "JunitReport.change_count j + JunitReport.same_count j
         + JunitReport.failure_count j + JunitReport.skipped_count j"
        "concat (JunitReport.tests j)"]
    by simp
qed

lemma junit_scenario_run:
  \<open>JunitReport_run (JunitReport_init False False False False)
       [Call_done ''a.py'' YES, Call_failed ''b.py'' ''boom'']
   = Inr \<lparr>JunitReport.check = False, diff = False, quiet = False, verbose = False,
          change_count = 1, same_count = 0, skipped_count = 0, failure_count = 1,
          error_count = 0,
          tests = [CHR 0x09 # ''<testcase classname="black" file="a.py"\<newline>    name="black-a.py">\<newline>            <failure message="reformatted" />\<newline>    </testcase>\<newline>'',
                   CHR 0x09 # ''<testcase classname="black" file="b.py"\<newline>    name="black-b.py">\<newline>            <error message="error: cannot format b.py: boom" />\<newline>    </testcase>\<newline>'']\<rparr>\<close>
  by (simp add: JunitReport_init_def JunitReport_done_YES_shown JunitReport_failed_returns)

theorem JunitReport_str_document_witness:
  \<open>\<exists>j'. JunitReport_run (JunitReport_init False False False False)
          [Call_done ''a.py'' YES, Call_failed ''b.py'' ''boom''] = Inr j'
     \<and> JunitReport_str j' =
         Inr (''<?xml version="1.0" encoding="utf-8"?>\<newline><testsuite failures="1" errors="1" name="black"\<newline>skipped="0" tests="2">\<newline>''
              @ CHR 0x09 # ''<testcase classname="black" file="a.py"\<newline>    name="black-a.py">\<newline>            <failure message="reformatted" />\<newline>    </testcase>\<newline>''
              @ CHR 0x09 # ''<testcase classname="black" file="b.py"\<newline>    name="black-b.py">\<newline>            <error message="error: cannot format b.py: boom" />\<newline>    </testcase>\<newline>''
              @ ''</testsuite>'')\<close>
proof -
  have doc: \<open>JunitReport_str
      \<lparr>JunitReport.check = False, diff = False, quiet = False, verbose = False,
          change_count = 1, same_count = 0, skipped_count = 0, failure_count = 1,
          error_count = 0,
          tests = [CHR 0x09 # ''<testcase classname="black" file="a.py"\<newline>    name="black-a.py">\<newline>            <failure message="reformatted" />\<newline>    </testcase>\<newline>'',
                   CHR 0x09 # ''<testcase classname="black" file="b.py"\<newline>    name="black-b.py">\<newline>            <error message="error: cannot format b.py: boom" />\<newline>    </testcase>\<newline>'']\<rparr>
     = Inr (''<?xml version="1.0" encoding="utf-8"?>\<newline><testsuite failures="1" errors="1" name="black"\<newline>skipped="0" tests="2">\<newline>''
              @ CHR 0x09 # ''<testcase classname="black" file="a.py"\<newline>    name="black-a.py">\<newline>            <failure message="reformatted" />\<newline>    </testcase>\<newline>''
              @ CHR 0x09 # ''<testcase classname="black" file="b.py"\<newline>    name="black-b.py">\<newline>            <error message="error: cannot format b.py: boom" />\<newline>    </testcase>\<newline>''
              @ ''</testsuite>'')\<close>
    using JunitReport_str_document [THEN conjunct1, of
      \<open>\<lparr>JunitReport.check = False, diff = False, quiet = False, verbose = False,
          change_count = 1, same_count = 0, skipped_count = 0, failure_count = 1,
          error_count = 0,
          tests = [CHR 0x09 # ''<testcase classname="black" file="a.py"\<newline>    name="black-a.py">\<newline>            <failure message="reformatted" />\<newline>    </testcase>\<newline>'',
                   CHR 0x09 # ''<testcase classname="black" file="b.py"\<newline>    name="black-b.py">\<newline>            <error message="error: cannot format b.py: boom" />\<newline>    </testcase>\<newline>'']\<rparr>\<close>]
    by (simp add: str_int_def str_nat.simps digit_char_def)
  show ?thesis
    unfolding junit_scenario_run using doc by simp
qed

section \<open>The fragments that done appends\<close>

text \<open>
  C2, as the code has it. With \<^verbatim>\<open>verbose\<close> set or \<^verbatim>\<open>quiet\<close> unset,
  \<^verbatim>\<open>JunitReport.done\<close> on \<^verbatim>\<open>Changed.YES\<close> appends the \<^verbatim>\<open>FAIL_MSG\<close> fragment
  and sets \<^verbatim>\<open>change_count\<close> to 1. The path fills the \<^verbatim>\<open>file\<close> and \<^verbatim>\<open>name\<close>
  attributes of the test case; the message of the \<^verbatim>\<open>failure\<close> child is the verb
  alone, \<^verbatim>\<open>would reformat\<close> when \<^verbatim>\<open>check\<close> or \<^verbatim>\<open>diff\<close> is set and
  \<^verbatim>\<open>reformatted\<close> otherwise.
\<close>

theorem done_changed_fragment:
  \<open>JunitReport.verbose j \<or> \<not> JunitReport.quiet j \<longrightarrow>
   JunitReport_done j src YES =
     Inr (j\<lparr>JunitReport.tests := JunitReport.tests j @
            [CHR 0x09 # ''<testcase classname="black" file="'' @ src @ ''"\<newline>    name="black-'' @ src @ ''">\<newline>            <failure message="'' @ (if JunitReport.check j \<or> JunitReport.diff j then ''would reformat'' else ''reformatted'') @ ''" />\<newline>    </testcase>\<newline>''],
          JunitReport.change_count := 1\<rparr>)\<close>
  using JunitReport_done_YES_shown [of j src] by blast

theorem done_changed_fragment_witness:
  \<open>JunitReport_done (JunitReport_init True False True True) ''src/a.py'' YES =
     Inr ((JunitReport_init True False True True)
          \<lparr>JunitReport.tests :=
             [CHR 0x09 # ''<testcase classname="black" file="src/a.py"\<newline>    name="black-src/a.py">\<newline>            <failure message="would reformat" />\<newline>    </testcase>\<newline>''],
           JunitReport.change_count := 1\<rparr>)\<close>
  using done_changed_fragment [of "JunitReport_init True False True True" "''src/a.py''"]
  by (simp add: JunitReport_init_def)

text \<open>
  C2, as the claim states it, fails: on a fresh accumulator with no flag set,
  \<^verbatim>\<open>done("a.py", Changed.YES)\<close> appends a fragment whose \<^verbatim>\<open>message\<close> attribute is
  \<^verbatim>\<open>reformatted\<close>; the text \<^verbatim>\<open>reformatted a.py\<close> occurs nowhere in the fragment.
\<close>

theorem done_changed_message_without_path:
  \<open>JunitReport_done (JunitReport_init False False False False) ''a.py'' YES =
     Inr ((JunitReport_init False False False False)
          \<lparr>JunitReport.tests :=
             [CHR 0x09 # ''<testcase classname="black" file="a.py"\<newline>    name="black-a.py">\<newline>            <failure message="reformatted" />\<newline>    </testcase>\<newline>''],
           JunitReport.change_count := 1\<rparr>)
   \<and> attribute ''message''
         (CHR 0x09 # ''<testcase classname="black" file="a.py"\<newline>    name="black-a.py">\<newline>            <failure message="reformatted" />\<newline>    </testcase>\<newline>'')
       = Some ''reformatted''
   \<and> \<not> sublist ''a.py'' ''reformatted''
   \<and> \<not> sublist ''reformatted a.py''
         (CHR 0x09 # ''<testcase classname="black" file="a.py"\<newline>    name="black-a.py">\<newline>            <failure message="reformatted" />\<newline>    </testcase>\<newline>'')\<close>
proof -
  have \<open>JunitReport_done (JunitReport_init False False False False) ''a.py'' YES =
     Inr ((JunitReport_init False False False False)
          \<lparr>JunitReport.tests :=
             [CHR 0x09 # ''<testcase classname="black" file="a.py"\<newline>    name="black-a.py">\<newline>            <failure message="reformatted" />\<newline>    </testcase>\<newline>''],
           JunitReport.change_count := 1\<rparr>)\<close>
    by (simp add: JunitReport_done_YES_shown JunitReport_init_def)
  moreover have \<open>attribute ''message''
         (CHR 0x09 # ''<testcase classname="black" file="a.py"\<newline>    name="black-a.py">\<newline>            <failure message="reformatted" />\<newline>    </testcase>\<newline>'')
       = Some ''reformatted''\<close>
    by (simp add: attribute_def)
  moreover have \<open>\<not> sublist ''a.py'' ''reformatted''\<close>
    by code_simp
  moreover have \<open>\<not> sublist ''reformatted a.py''
         (CHR 0x09 # ''<testcase classname="black" file="a.py"\<newline>    name="black-a.py">\<newline>            <failure message="reformatted" />\<newline>    </testcase>\<newline>'')\<close>
    by code_simp
  ultimately show ?thesis
    by (intro conjI)
qed

text \<open>
  C3, as the code has it. On every outcome other than \<^verbatim>\<open>Changed.YES\<close>,
  \<^verbatim>\<open>JunitReport.done\<close> appends the \<^verbatim>\<open>PASS_MSG\<close> fragment and sets
  \<^verbatim>\<open>same_count\<close> to 1, whatever \<^verbatim>\<open>verbose\<close> and \<^verbatim>\<open>quiet\<close> are. The fragment is a
  test case with no child, the path in its \<^verbatim>\<open>file\<close> and \<^verbatim>\<open>name\<close> attributes: the
  template has no \<^verbatim>\<open>msg\<close> field, so the message that \<^verbatim>\<open>done\<close> passes to
  \<^verbatim>\<open>format\<close> is not part of it, and \<^verbatim>\<open>Changed.NO\<close> and \<^verbatim>\<open>Changed.CACHED\<close> append
  the same text.
\<close>

theorem done_unchanged_fragment:
  \<open>changed \<noteq> YES \<longrightarrow>
   JunitReport_done j src changed =
     Inr (j\<lparr>JunitReport.tests := JunitReport.tests j @
            [CHR 0x09 # ''<testcase classname="black" file="'' @ src @ ''"\<newline>    name="black-'' @ src @ ''"></testcase>\<newline>''],
          JunitReport.same_count := 1\<rparr>)\<close>
  using JunitReport_done_same [of changed j src] by blast

theorem done_unchanged_fragment_witness:
  \<open>JunitReport_done (JunitReport_init False False True False) ''b.py'' CACHED =
     Inr ((JunitReport_init False False True False)
          \<lparr>JunitReport.tests :=
             [CHR 0x09 # ''<testcase classname="black" file="b.py"\<newline>    name="black-b.py"></testcase>\<newline>''],
           JunitReport.same_count := 1\<rparr>)\<close>
  using done_unchanged_fragment [of CACHED "JunitReport_init False False True False" "''b.py''"]
  by (simp add: JunitReport_init_def)

text \<open>
  C3, as the claim states it, fails: the fragment that \<^verbatim>\<open>done("a.py", Changed.NO)\<close>
  appends has no \<^verbatim>\<open>message\<close> attribute and holds neither message text.
\<close>

theorem done_unchanged_fragment_without_message:
  \<open>JunitReport_done (JunitReport_init False False False True) ''a.py'' NO =
     Inr ((JunitReport_init False False False True)
          \<lparr>JunitReport.tests :=
             [CHR 0x09 # ''<testcase classname="black" file="a.py"\<newline>    name="black-a.py"></testcase>\<newline>''],
           JunitReport.same_count := 1\<rparr>)
   \<and> attribute ''message''
         (CHR 0x09 # ''<testcase classname="black" file="a.py"\<newline>    name="black-a.py"></testcase>\<newline>'')
       = None
   \<and> \<not> sublist ''a.py already well formatted, good job.''
         (CHR 0x09 # ''<testcase classname="black" file="a.py"\<newline>    name="black-a.py"></testcase>\<newline>'')
   \<and> \<not> sublist ''already well formatted''
         (CHR 0x09 # ''<testcase classname="black" file="a.py"\<newline>    name="black-a.py"></testcase>\<newline>'')
   \<and> JunitReport_done (JunitReport_init False False False True) ''a.py'' CACHED
       = JunitReport_done (JunitReport_init False False False True) ''a.py'' NO\<close>
proof -
  have \<open>JunitReport_done (JunitReport_init False False False True) ''a.py'' NO =
     Inr ((JunitReport_init False False False True)
          \<lparr>JunitReport.tests :=
             [CHR 0x09 # ''<testcase classname="black" file="a.py"\<newline>    name="black-a.py"></testcase>\<newline>''],
           JunitReport.same_count := 1\<rparr>)\<close>
    by (simp add: JunitReport_done_same JunitReport_init_def)
  moreover have \<open>attribute ''message''
         (CHR 0x09 # ''<testcase classname="black" file="a.py"\<newline>    name="black-a.py"></testcase>\<newline>'')
       = None\<close>
    by (simp add: attribute_def)
  moreover have \<open>\<not> sublist ''a.py already well formatted, good job.''
         (CHR 0x09 # ''<testcase classname="black" file="a.py"\<newline>    name="black-a.py"></testcase>\<newline>'')\<close>
    by code_simp
  moreover have \<open>\<not> sublist ''already well formatted''
         (CHR 0x09 # ''<testcase classname="black" file="a.py"\<newline>    name="black-a.py"></testcase>\<newline>'')\<close>
    by code_simp
  moreover have \<open>JunitReport_done (JunitReport_init False False False True) ''a.py'' CACHED
       = JunitReport_done (JunitReport_init False False False True) ''a.py'' NO\<close>
    by (simp add: JunitReport_done_same)
  ultimately show ?thesis
    by (intro conjI)
qed

section \<open>A change that is counted and not listed\<close>










end
